theory Spec2Isabelle
  imports Complex_Main "HOL-Library.AList" "HOL-Library.Sublist"
begin

section \<open>The task-completion control layer of the ERC3 agent\<close>

text \<open>
  A shallow embedding of \<^verbatim>\<open>src/erc_agent/store_agent.py\<close>: the tool wrapper
  \<^verbatim>\<open>ERC3Tool._run\<close>, the checkpoint \<^verbatim>\<open>verify_function\<close>, the usage callback
  \<^verbatim>\<open>ERC3LoggingCallback\<close> and the control flow of \<^verbatim>\<open>run_agent\<close> around the agent
  loop (fallback completion, error path, teardown).

  Modelling decisions.
  \<^item> Python \<^verbatim>\<open>str\<close> is \<open>string\<close>, read as the UTF-8 bytes of the text. Comparing
    texts, joining them, splitting at a comma and looking for an ASCII text inside another
    give the same on the bytes as on the characters. \<^verbatim>\<open>str.lower\<close> and
    \<^verbatim>\<open>str.strip\<close> do not: they follow the Unicode tables of the Python runtime, which
    are not part of the repository. They are the fields \<open>lower\<close> and \<open>strip\<close> of
    the environment, and every property is proved for whatever these two functions are.
  \<^item> The module globals \<^verbatim>\<open>_response_provided\<close>, \<^verbatim>\<open>_verified\<close>,
    \<^verbatim>\<open>_last_verify_payload\<close> and the fields of the callback object are fields of one
    state record, passed explicitly. Two more fields record what the program hands to the
    external API: every request given to \<^verbatim>\<open>store_api.dispatch\<close> and every record given
    to \<^verbatim>\<open>api.log_llm\<close>, in order.
  \<^item> The external API is part of the same environment record; its answers may depend on
    the calls made so far. An exception is a value of type \<open>exn\<close>; a computation that may raise returns
    \<open>exn + 'a\<close> with \<open>Inl\<close> for the raised exception. \<open>exn\<close> stands for the
    subclasses of \<^verbatim>\<open>Exception\<close>; interrupts of the process are outside the model.
  \<^item> Calls of \<^verbatim>\<open>logger\<close> change nothing the functions return or store and are left out.
  \<^item> Clock readings are real numbers.
\<close>

subsection \<open>Python values and strings\<close>

datatype pyval =
    VNone
  | VBool bool
  | VInt int
  | VStr string
  | VList "pyval list"
  | VDict "(string \<times> pyval) list"

type_synonym kwargs = "(string \<times> pyval) list"

datatype exn =
    ApiException (detail: string) (api_error_error: string)
  | OtherException (str: string)

definition nl :: string where
  "nl = [CHR 0x0A]"

text \<open>
  \<^verbatim>\<open>str.lower\<close> and \<^verbatim>\<open>str.strip\<close> on a text of ASCII characters: the letters
  \<^verbatim>\<open>A\<close> to \<^verbatim>\<open>Z\<close> have a lower case, and the blanks are the ASCII characters for which
  \<^verbatim>\<open>str.isspace\<close> holds.
\<close>

definition ascii_lower_char :: "char \<Rightarrow> char" where
  "ascii_lower_char c =
     (case map_of (zip ''ABCDEFGHIJKLMNOPQRSTUVWXYZ'' ''abcdefghijklmnopqrstuvwxyz'') c of
        Some l \<Rightarrow> l
      | None \<Rightarrow> c)"

definition ascii_lower :: "string \<Rightarrow> string" where
  "ascii_lower s = map ascii_lower_char s"

definition ascii_isspace :: "char \<Rightarrow> bool" where
  "ascii_isspace c \<longleftrightarrow>
     c \<in> set [CHR 0x09, CHR 0x0A, CHR 0x0B, CHR 0x0C, CHR 0x0D,
              CHR 0x1C, CHR 0x1D, CHR 0x1E, CHR 0x1F, CHR 0x20]"

definition ascii_strip :: "string \<Rightarrow> string" where
  "ascii_strip s = rev (dropWhile ascii_isspace (rev (dropWhile ascii_isspace s)))"

text \<open>\<^verbatim>\<open>raw.split(",")\<close>: never empty, \<^verbatim>\<open>"".split(",") == [""]\<close>.\<close>

fun split_comma :: "string \<Rightarrow> string list" where
  "split_comma [] = [[]]"
| "split_comma (c # cs) =
     (if c = CHR '','' then [] # split_comma cs
      else (case split_comma cs of
              [] \<Rightarrow> [[c]]
            | w # ws \<Rightarrow> (c # w) # ws))"

text \<open>\<^verbatim>\<open>sep.join(xs)\<close>.\<close>

fun join :: "string \<Rightarrow> string list \<Rightarrow> string" where
  "join sep [] = []"
| "join sep [x] = x"
| "join sep (x # y # ys) = x @ sep @ join sep (y # ys)"

text \<open>
  \<^verbatim>\<open>v > 5\<close> for the value of a keyword argument: integers and booleans compare as
  numbers, every other type raises \<^verbatim>\<open>TypeError\<close>.
\<close>

definition apostrophe :: string where
  "apostrophe = [CHR 0x27]"

definition quoted :: "string \<Rightarrow> string" where
  "quoted s = apostrophe @ s @ apostrophe"

definition not_supported :: "string \<Rightarrow> exn" where
  "not_supported ty =
     OtherException (quoted ''>'' @ '' not supported between instances of '' @ quoted ty @
       '' and '' @ quoted ''int'')"

fun py_gt :: "pyval \<Rightarrow> int \<Rightarrow> exn + bool" where
  "py_gt (VInt n) k = Inr (n > k)"
| "py_gt (VBool b) k = Inr ((if b then 1 else 0) > k)"
| "py_gt VNone k = Inl (not_supported ''NoneType'')"
| "py_gt (VStr s) k = Inl (not_supported ''str'')"
| "py_gt (VList xs) k = Inl (not_supported ''list'')"
| "py_gt (VDict d) k = Inl (not_supported ''dict'')"

subsection \<open>Requests, the external API and the state\<close>

text \<open>
  What \<^verbatim>\<open>store_api.dispatch\<close> receives: the terminal response
  \<^verbatim>\<open>dev.Req_ProvideAgentResponse(tool=, message=, outcome=, links=)\<close>, with each link a
  pair of kind and id, or an object of another request class built from keyword arguments.
\<close>

datatype request =
    ProvideAgentResponse (resp_tool: string) (resp_message: string) (resp_outcome: string)
      (resp_links: "(string \<times> string) list")
  | ApiRequest (req_class: string) (req_fields: kwargs)

text \<open>The result object of a dispatch; only its JSON text is used.\<close>

datatype api_result = ApiResult (model_dump_json: string)

text \<open>The keyword arguments of one call of \<^verbatim>\<open>api.log_llm\<close>.\<close>

record usage_record =
  task_id :: string
  model :: string
  completion :: string
  duration_sec :: real
  prompt_tokens :: pyval
  completion_tokens :: pyval
  cached_prompt_tokens :: pyval

record state =
  response_provided :: bool
  verified :: bool
  last_verify_payload :: "(string \<times> string) list"
  dispatched :: "request list"
  llm_logged :: "usage_record list"
  start_time :: "real option"
  total_duration :: real
  total_completion_tokens :: int
  total_prompt_tokens :: int
  total_tokens :: int
  call_count :: nat
  cb_task_id :: string
  cb_model_name :: string

text \<open>
  What the program takes from outside: the methods \<^verbatim>\<open>str.lower\<close> and
  \<^verbatim>\<open>str.strip\<close> of the Python runtime (on the UTF-8 bytes of a text), the answer of
  \<^verbatim>\<open>store_api.dispatch\<close> to a request after the requests made so far,
  \<^verbatim>\<open>json.dumps\<close>, and the exception, if any, of the statements before the agent loop.
\<close>

record env =
  lower :: "string \<Rightarrow> string"
  strip :: "string \<Rightarrow> string"
  dispatch :: "request list \<Rightarrow> request \<Rightarrow> exn + api_result"
  json_dumps :: "pyval \<Rightarrow> exn + string"
  startup :: "exn option"

record tool =
  name :: string
  request_class :: "kwargs \<Rightarrow> exn + request"

subsection \<open>\<^verbatim>\<open>ERC3Tool._run\<close>\<close>

definition already_completed :: string where
  "already_completed =
     ''TASK ALREADY COMPLETED - Response was already provided. Stop calling tools.''"

definition completed_suffix :: string where
  "completed_suffix =
     nl @ nl @ ''TASK COMPLETED SUCCESSFULLY. You have provided the final response. '' @
     ''Do not call any more tools. The task is finished.''"

text \<open>The page limit: a \<^verbatim>\<open>page\<close> that is present, not \<^verbatim>\<open>None\<close> and above 5 is set to 5.\<close>

definition clamp_page :: "kwargs \<Rightarrow> exn + kwargs" where
  "clamp_page kwargs =
     (case map_of kwargs ''page'' of
        None \<Rightarrow> Inr kwargs
      | Some VNone \<Rightarrow> Inr kwargs
      | Some v \<Rightarrow>
          (case py_gt v 5 of
             Inl e \<Rightarrow> Inl e
           | Inr too_big \<Rightarrow>
               Inr (if too_big then AList.update ''page'' (VInt 5) kwargs else kwargs)))"

text \<open>
  From the request object on: the dispatch, the serialisation of the result and the latch
  for \<^verbatim>\<open>Req_ProvideAgentResponse\<close>.
\<close>

definition dispatch_request :: "env \<Rightarrow> tool \<Rightarrow> request \<Rightarrow> state \<Rightarrow> (exn + string) \<times> state" where
  "dispatch_request env t request s =
     (let s1 = s\<lparr>dispatched := dispatched s @ [request]\<rparr> in
      case dispatch env (dispatched s) request of
        Inl e \<Rightarrow> (Inl e, s1)
      | Inr result \<Rightarrow>
          (let txt = model_dump_json result in
           if name t = ''Req_ProvideAgentResponse''
           then (Inr (txt @ completed_suffix), s1\<lparr>response_provided := True\<rparr>)
           else (Inr txt, s1)))"

text \<open>The body of the \<^verbatim>\<open>try\<close> block.\<close>

definition run_try :: "env \<Rightarrow> tool \<Rightarrow> kwargs \<Rightarrow> state \<Rightarrow> (exn + string) \<times> state" where
  "run_try env t kwargs s =
     (case clamp_page kwargs of
        Inl e \<Rightarrow> (Inl e, s)
      | Inr kwargs' \<Rightarrow>
          (case request_class t kwargs' of
             Inl e \<Rightarrow> (Inl e, s)
           | Inr request \<Rightarrow> dispatch_request env t request s))"

text \<open>
  The whole method, with its two handlers. The result is \<open>Inl e\<close> if the method raises
  \<open>e\<close> and \<open>Inr txt\<close> if it returns \<open>txt\<close>.
\<close>

definition ERC3Tool_run :: "env \<Rightarrow> tool \<Rightarrow> kwargs \<Rightarrow> state \<Rightarrow> (exn + string) \<times> state" where
  "ERC3Tool_run env t kwargs s =
     (if response_provided s \<and> name t = ''Req_ProvideAgentResponse''
      then (Inr already_completed, s)
      else
        (case run_try env t kwargs s of
           (Inr txt, s') \<Rightarrow> (Inr txt, s')
         | (Inl (ApiException d err), s') \<Rightarrow> (Inr (''API Error: '' @ d), s')
         | (Inl (OtherException m), s') \<Rightarrow> (Inr (''Error: '' @ m), s')))"

subsection \<open>\<^verbatim>\<open>verify_function\<close>\<close>

record VerifyInput =
  outcome :: string
  employee_links :: string
  project_links :: string
  customer_links :: string
  made_modifications :: bool
  permissions_checked :: bool
  wiki_checked :: bool
  reasoning :: string

definition links_summary :: "env \<Rightarrow> VerifyInput \<Rightarrow> string list" where
  "links_summary env a =
     (if employee_links a \<noteq> [] \<and> lower env (employee_links a) \<noteq> ''none''
      then [''employees: '' @ employee_links a] else []) @
     (if project_links a \<noteq> [] \<and> lower env (project_links a) \<noteq> ''none''
      then [''projects: '' @ project_links a] else []) @
     (if customer_links a \<noteq> [] \<and> lower env (customer_links a) \<noteq> ''none''
      then [''customers: '' @ customer_links a] else [])"

definition links_str :: "env \<Rightarrow> VerifyInput \<Rightarrow> string" where
  "links_str env a = (if links_summary env a \<noteq> [] then join '', '' (links_summary env a) else ''none'')"

definition warn_permissions :: string where
  "warn_permissions = ''WARNING: You made modifications but did not check permissions first!''"

definition warn_denied_links :: string where
  "warn_denied_links =
     ''WARNING: denied_security should have NO links (empty) to prevent information leakage!''"

definition warn_error_links :: string where
  "warn_error_links =
     ''WARNING: error_internal/none_unsupported must return with NO links because data is '' @
     ''unreliable or unsupported.''"

definition warn_clarification :: string where
  "warn_clarification =
     ''WARNING: You mentioned ok_answer but chose none_clarification_needed - are you sure?''"

definition warnings :: "env \<Rightarrow> VerifyInput \<Rightarrow> string list" where
  "warnings env a =
     (if made_modifications a \<and> \<not> permissions_checked a then [warn_permissions] else []) @
     (if outcome a = ''denied_security'' \<and>
         (lower env (employee_links a) \<noteq> ''none'' \<or> lower env (project_links a) \<noteq> ''none'' \<or>
          lower env (customer_links a) \<noteq> ''none'')
      then [warn_denied_links] else []) @
     (if outcome a \<in> set [''error_internal'', ''none_unsupported''] \<and>
         (lower env (employee_links a) \<noteq> ''none'' \<or> lower env (project_links a) \<noteq> ''none'' \<or>
          lower env (customer_links a) \<noteq> ''none'')
      then [warn_error_links] else []) @
     (if outcome a = ''none_clarification_needed'' \<and> sublist ''ok_answer'' (lower env (reasoning a))
      then [warn_clarification] else [])"

definition next_action :: "env \<Rightarrow> VerifyInput \<Rightarrow> string" where
  "next_action env a =
     ''Verification recorded.'' @ nl @ nl @
     ''YOUR NEXT AND FINAL ACTION MUST BE:'' @ nl @
     ''Call Req_ProvideAgentResponse with:'' @ nl @
     ''- outcome: '' @ outcome a @ nl @
     ''- links: '' @ links_str env a @ nl @
     ''- message: (your explanation to user)'' @ nl @ nl @
     ''DO NOT respond with text. You MUST call the Req_ProvideAgentResponse tool now.''"

text \<open>The first line of a result with warnings: a warning sign (U+26A0 U+FE0F) and a word.\<close>

definition warnings_header :: string where
  "warnings_header =
     [CHR 0xE2, CHR 0x9A, CHR 0xA0, CHR 0xEF, CHR 0xB8, CHR 0x8F] @ '' WARNINGS:'' @ nl"

definition verify_payload :: "VerifyInput \<Rightarrow> (string \<times> string) list" where
  "verify_payload a =
     [(''outcome'', outcome a),
      (''employee_links'', employee_links a),
      (''project_links'', project_links a),
      (''customer_links'', customer_links a),
      (''reasoning'', reasoning a)]"

definition verify_function :: "env \<Rightarrow> VerifyInput \<Rightarrow> state \<Rightarrow> string \<times> state" where
  "verify_function env a s =
     (let s' = s\<lparr>verified := True, last_verify_payload := verify_payload a\<rparr>;
          result = next_action env a
      in (if warnings env a \<noteq> []
          then warnings_header @ join nl (warnings env a) @ nl @ nl @ result
          else result,
          s'))"

subsection \<open>The usage callback \<^verbatim>\<open>ERC3LoggingCallback\<close>\<close>

text \<open>
  The response handed to \<^verbatim>\<open>on_llm_end\<close> is an \<^verbatim>\<open>LLMResult\<close> of the framework:
  \<^verbatim>\<open>llm_output\<close> is a dictionary or \<^verbatim>\<open>None\<close>; \<^verbatim>\<open>generations\<close> is a list of lists
  of generations; a chat generation carries a message with a text content, tool calls and
  two dictionaries; a plain generation carries a text. The attributes that these classes
  always have are fields here, so the \<^verbatim>\<open>hasattr\<close> tests on them hold.
\<close>

record message =
  content :: string
  tool_calls :: "pyval list"
  additional_kwargs :: "(string \<times> pyval) list"
  response_metadata :: "(string \<times> pyval) list"

datatype generation =
    ChatGeneration message
  | Generation string

record llm_result =
  llm_output :: pyval
  generations :: "generation list list"

fun py_truthy :: "pyval \<Rightarrow> bool" where
  "py_truthy VNone = False"
| "py_truthy (VBool b) = b"
| "py_truthy (VInt n) = (n \<noteq> 0)"
| "py_truthy (VStr s) = (s \<noteq> [])"
| "py_truthy (VList xs) = (xs \<noteq> [])"
| "py_truthy (VDict d) = (d \<noteq> [])"

fun type_name :: "pyval \<Rightarrow> string" where
  "type_name VNone = ''NoneType''"
| "type_name (VBool b) = ''bool''"
| "type_name (VInt n) = ''int''"
| "type_name (VStr s) = ''str''"
| "type_name (VList xs) = ''list''"
| "type_name (VDict d) = ''dict''"

text \<open>\<^verbatim>\<open>d.get(k, default)\<close>: only a dictionary has the method.\<close>

fun py_get :: "pyval \<Rightarrow> string \<Rightarrow> pyval \<Rightarrow> exn + pyval" where
  "py_get (VDict d) k dflt = Inr (case map_of d k of Some v \<Rightarrow> v | None \<Rightarrow> dflt)"
| "py_get v k dflt =
     Inl (OtherException (quoted (type_name v) @ '' object has no attribute '' @ quoted ''get''))"

text \<open>\<^verbatim>\<open>total += v\<close> for an integer total.\<close>

fun py_add :: "int \<Rightarrow> pyval \<Rightarrow> exn + int" where
  "py_add n (VInt k) = Inr (n + k)"
| "py_add n (VBool b) = Inr (n + (if b then 1 else 0))"
| "py_add n v =
     Inl (OtherException (''unsupported operand type(s) for +=: '' @ quoted ''int'' @ '' and '' @
       quoted (type_name v)))"

definition on_llm_start :: "real \<Rightarrow> state \<Rightarrow> state" where
  "on_llm_start now s = s\<lparr>start_time := Some now\<rparr>"

text \<open>The list built from \<^verbatim>\<open>msg.tool_calls\<close>, one dictionary per call, in order.\<close>

fun tool_calls_info :: "pyval list \<Rightarrow> exn + pyval list" where
  "tool_calls_info [] = Inr []"
| "tool_calls_info (tc # tcs) =
     (case py_get tc ''name'' (VStr []) of
        Inl e \<Rightarrow> Inl e
      | Inr n \<Rightarrow>
          (case py_get tc ''args'' (VDict []) of
             Inl e \<Rightarrow> Inl e
           | Inr a \<Rightarrow>
               (case tool_calls_info tcs of
                  Inl e \<Rightarrow> Inl e
                | Inr rest \<Rightarrow> Inr (VDict [(''name'', n), (''args'', a)] # rest))))"

text \<open>The completion text of a message: its content, else its tool calls as JSON.\<close>

definition message_text :: "env \<Rightarrow> message \<Rightarrow> exn + string" where
  "message_text env msg =
     (case (if content msg = [] \<and> tool_calls msg \<noteq> []
            then (case tool_calls_info (tool_calls msg) of
                    Inl e \<Rightarrow> Inl e
                  | Inr info \<Rightarrow> json_dumps env (VList info))
            else Inr (content msg)) of
        Inl e \<Rightarrow> Inl e
      | Inr txt \<Rightarrow>
          (if txt = []
           then (case map_of (additional_kwargs msg) ''tool_calls'' of
                   Some v \<Rightarrow> json_dumps env v
                 | None \<Rightarrow>
                     (case map_of (additional_kwargs msg) ''function_call'' of
                        Some v \<Rightarrow> json_dumps env v
                      | None \<Rightarrow> Inr txt))
           else Inr txt))"

text \<open>The usage dictionary of a message and the cached prompt tokens.\<close>

definition message_usage :: "message \<Rightarrow> exn + pyval \<times> pyval" where
  "message_usage msg =
     (case py_get (VDict (response_metadata msg)) ''token_usage'' (VDict []) of
        Inl e \<Rightarrow> Inl e
      | Inr usage_data \<Rightarrow>
          (case py_get usage_data ''prompt_tokens_details'' (VDict []) of
             Inl e \<Rightarrow> Inl e
           | Inr details \<Rightarrow>
               (if py_truthy details
                then (case py_get details ''cached_tokens'' (VInt 0) of
                        Inl e \<Rightarrow> Inl e
                      | Inr cached \<Rightarrow> Inr (usage_data, cached))
                else Inr (usage_data, VInt 0))))"

text \<open>
  What \<^verbatim>\<open>on_llm_end\<close> reads from the response: completion text, usage dictionary and
  cached prompt tokens.
\<close>

definition extract_usage :: "env \<Rightarrow> llm_result \<Rightarrow> exn + string \<times> pyval \<times> pyval" where
  "extract_usage env response =
     (case (if py_truthy (llm_output response)
            then py_get (llm_output response) ''token_usage'' (VDict [])
            else Inr (VDict [])) of
        Inl e \<Rightarrow> Inl e
      | Inr usage_data \<Rightarrow>
          (case generations response of
             [] \<Rightarrow> Inr ([], usage_data, VInt 0)
           | [] # _ \<Rightarrow> Inl (OtherException ''list index out of range'')
           | (ChatGeneration msg # _) # _ \<Rightarrow>
               (case message_text env msg of
                  Inl e \<Rightarrow> Inl e
                | Inr txt \<Rightarrow>
                    (case message_usage msg of
                       Inl e \<Rightarrow> Inl e
                     | Inr (usage_data', cached) \<Rightarrow> Inr (txt, usage_data', cached)))
           | (Generation txt # _) # _ \<Rightarrow> Inr (txt, usage_data, VInt 0)))"

text \<open>
  The statements of the \<^verbatim>\<open>try\<close> block after the counters: the totals are updated one
  by one, so an exception leaves the earlier updates in place; \<^verbatim>\<open>api.log_llm\<close> is the
  last statement, and whether it raises changes nothing but the warning printed.
\<close>

definition record_usage :: "env \<Rightarrow> real \<Rightarrow> llm_result \<Rightarrow> state \<Rightarrow> state" where
  "record_usage env duration response s =
     (case extract_usage env response of
        Inl e \<Rightarrow> s
      | Inr (txt, usage_data, cached) \<Rightarrow>
          (let completion_text = (if txt = [] then ''[empty_response]'' else txt) in
           case py_get usage_data ''prompt_tokens'' (VInt 0) of
             Inl e \<Rightarrow> s
           | Inr p_tokens \<Rightarrow>
               (case py_get usage_data ''completion_tokens'' (VInt 0) of
                  Inl e \<Rightarrow> s
                | Inr c_tokens \<Rightarrow>
                    (case py_add (total_completion_tokens s) c_tokens of
                       Inl e \<Rightarrow> s
                     | Inr tc \<Rightarrow>
                         (let s1 = s\<lparr>total_completion_tokens := tc\<rparr> in
                          case py_add (total_prompt_tokens s1) p_tokens of
                            Inl e \<Rightarrow> s1
                          | Inr tp \<Rightarrow>
                              (let s2 = s1\<lparr>total_prompt_tokens := tp\<rparr> in
                               case py_get usage_data ''total_tokens'' (VInt 0) of
                                 Inl e \<Rightarrow> s2
                               | Inr t_tokens \<Rightarrow>
                                   (case py_add (total_tokens s2) t_tokens of
                                      Inl e \<Rightarrow> s2
                                    | Inr tt \<Rightarrow>
                                        (let s3 = s2\<lparr>total_tokens := tt\<rparr> in
                                         s3\<lparr>llm_logged := llm_logged s3 @
                                             [\<lparr>task_id = cb_task_id s3,
                                               model = cb_model_name s3,
                                               completion = completion_text,
                                               duration_sec = duration,
                                               prompt_tokens = p_tokens,
                                               completion_tokens = c_tokens,
                                               cached_prompt_tokens = cached\<rparr>]\<rparr>))))))))"

definition on_llm_end :: "env \<Rightarrow> real \<Rightarrow> llm_result \<Rightarrow> state \<Rightarrow> state" where
  "on_llm_end env now response s =
     (case start_time s of
        None \<Rightarrow> s
      | Some started \<Rightarrow>
          (let duration = now - started;
               s1 = s\<lparr>total_duration := total_duration s + duration,
                       call_count := call_count s + 1\<rparr>;
               s2 = record_usage env duration response s1
           in s2\<lparr>start_time := None\<rparr>))"

definition zero_usage :: "state \<Rightarrow> usage_record" where
  "zero_usage s =
     \<lparr>task_id = cb_task_id s,
      model = cb_model_name s,
      completion = ''[no_llm_calls]'',
      duration_sec = 0,
      prompt_tokens = VInt 0,
      completion_tokens = VInt 0,
      cached_prompt_tokens = VInt 0\<rparr>"

text \<open>An exception of \<^verbatim>\<open>api.log_llm\<close> is caught here as well.\<close>

definition log_final_stats :: "state \<Rightarrow> state" where
  "log_final_stats s =
     (if call_count s = 0 then s\<lparr>llm_logged := llm_logged s @ [zero_usage s]\<rparr> else s)"

subsection \<open>\<^verbatim>\<open>run_agent\<close>\<close>

definition outcome_kinds :: "string list" where
  "outcome_kinds =
     [''ok_answer'', ''denied_security'', ''none_unsupported'', ''none_clarification_needed'',
      ''ok_not_found'', ''error_internal'']"

definition link_kinds :: "string list" where
  "link_kinds = [''employee'', ''project'', ''customer'']"

text \<open>
  Modelled from the spec: the constructor \<^verbatim>\<open>dev.Req_ProvideAgentResponse\<close> of the
  external package \<^verbatim>\<open>erc3\<close>, which is not part of the repository. The spec gives the
  terminal response schema \<^verbatim>\<open>{tool: "/respond", message, outcome: OutcomeKind, links: [{kind, id}]}\<close>
  with \<^verbatim>\<open>OutcomeKind\<close> a closed enumeration of six outcomes and the kind of a link one
  of employee, project and customer; a value outside the schema is a validation error.
\<close>

definition Req_ProvideAgentResponse ::
  "string \<Rightarrow> string \<Rightarrow> string \<Rightarrow> (string \<times> string) list \<Rightarrow> exn + request" where
  "Req_ProvideAgentResponse path msg oc lks =
     (if path = ''/respond'' \<and> oc \<in> set outcome_kinds \<and> (\<forall>l \<in> set lks. fst l \<in> set link_kinds)
      then Inr (ProvideAgentResponse path msg oc lks)
      else Inl (OtherException ''validation error for Req_ProvideAgentResponse''))"

text \<open>
  What the agent loop \<^verbatim>\<open>agent_executor.invoke\<close> does to the state: it calls the tools
  and the callback, in an order that the language model and the framework choose, and then
  returns or raises. A run of the loop is the list of these calls and its ending; the
  ending \<open>Raised e\<close> stands for any exception \<open>e\<close> that leaves the \<^verbatim>\<open>try\<close> block
  before the fallback completion.
\<close>

datatype event =
    ToolCall tool kwargs
  | Verify VerifyInput
  | Think string
  | Plan string
  | LlmStart real
  | LlmEnd real llm_result

datatype ending = Returned | Raised exn

fun exec_event :: "env \<Rightarrow> event \<Rightarrow> state \<Rightarrow> state" where
  "exec_event env (ToolCall t kwargs) s = snd (ERC3Tool_run env t kwargs s)"
| "exec_event env (Verify a) s = snd (verify_function env a s)"
| "exec_event env (Think thoughts) s = s"
| "exec_event env (Plan plan) s = s"
| "exec_event env (LlmStart now) s = on_llm_start now s"
| "exec_event env (LlmEnd now response) s = on_llm_end env now response s"

fun exec_events :: "env \<Rightarrow> event list \<Rightarrow> state \<Rightarrow> state" where
  "exec_events env [] s = s"
| "exec_events env (ev # evs) s = exec_events env evs (exec_event env ev s)"

text \<open>\<^verbatim>\<open>d.get(k) or default\<close> for a dictionary of strings.\<close>

definition get_or :: "(string \<times> string) list \<Rightarrow> string \<Rightarrow> string \<Rightarrow> string" where
  "get_or d k dflt =
     (case map_of d k of
        None \<Rightarrow> dflt
      | Some v \<Rightarrow> if v = [] then dflt else v)"

text \<open>The links that one list of the payload contributes.\<close>

definition links_of :: "env \<Rightarrow> string \<Rightarrow> string option \<Rightarrow> (string \<times> string) list" where
  "links_of env kind raw_opt =
     (case raw_opt of
        None \<Rightarrow> []
      | Some raw \<Rightarrow>
          if raw \<noteq> [] \<and> lower env raw \<noteq> ''none''
          then map (Pair kind) (filter (\<lambda>item. item \<noteq> []) (map (strip env) (split_comma raw)))
          else [])"

definition safe_outcomes_no_links :: "string set" where
  "safe_outcomes_no_links = {''error_internal'', ''denied_security'', ''none_unsupported''}"

definition payload_links :: "env \<Rightarrow> (string \<times> string) list \<Rightarrow> (string \<times> string) list" where
  "payload_links env payload =
     concat (map (\<lambda>(kind, raw). links_of env kind raw)
       [(''employee'', map_of payload ''employee_links''),
        (''project'', map_of payload ''project_links''),
        (''customer'', map_of payload ''customer_links'')])"

text \<open>The terminal response built from the verify payload.\<close>

definition auto_req :: "env \<Rightarrow> (string \<times> string) list \<Rightarrow> exn + request" where
  "auto_req env payload =
     (let message = get_or payload ''reasoning'' ''Auto-submitted based on verification step.'';
          outcome = get_or payload ''outcome'' ''error_internal'';
          links = (if outcome \<notin> safe_outcomes_no_links then payload_links env payload else [])
      in Req_ProvideAgentResponse ''/respond'' message outcome links)"

text \<open>
  The completion after a loop that returned: with a verify payload the terminal response is
  built from it and dispatched; an exception of the constructor or of the dispatch is caught.
\<close>

definition auto_complete :: "env \<Rightarrow> state \<Rightarrow> state" where
  "auto_complete env s =
     (if \<not> response_provided s then
        (if verified s \<and> last_verify_payload s \<noteq> [] then
           (case auto_req env (last_verify_payload s) of
              Inl e \<Rightarrow> s
            | Inr request \<Rightarrow>
                (let s1 = s\<lparr>dispatched := dispatched s @ [request]\<rparr> in
                 case dispatch env (dispatched s) request of
                   Inl e \<Rightarrow> s1
                 | Inr result \<Rightarrow> s1\<lparr>response_provided := True\<rparr>))
         else s)
      else s)"

definition internal_error_message :: string where
  "internal_error_message =
     ''An internal error occurred while processing your request. Please try again later.''"

text \<open>
  The handler of the \<^verbatim>\<open>try\<close> block: the error response is dispatched if the latch is
  unset; what the dispatch answers is only printed. The exception is raised again after it.
\<close>

definition send_error_internal :: "env \<Rightarrow> state \<Rightarrow> state" where
  "send_error_internal env s =
     (if \<not> response_provided s then
        (case Req_ProvideAgentResponse ''/respond'' internal_error_message ''error_internal'' [] of
           Inl e \<Rightarrow> s
         | Inr error_request \<Rightarrow> s\<lparr>dispatched := dispatched s @ [error_request]\<rparr>)
      else s)"

text \<open>
  The whole function. The flags are reset; the statements before the \<^verbatim>\<open>try\<close> block
  (the client, \<^verbatim>\<open>who_am_i\<close>, the prompt, the tools, the callback, the model) either raise
  \<open>startup env = Some e\<close>, which leaves the function at once, or succeed. The result is
  the exception that leaves \<^verbatim>\<open>run_agent\<close>, if any, and the final state.
\<close>

definition new_callback :: "string \<Rightarrow> string \<Rightarrow> state \<Rightarrow> state" where
  "new_callback tid mdl s =
     s\<lparr>start_time := None, total_duration := 0, total_completion_tokens := 0,
       total_prompt_tokens := 0, total_tokens := 0, call_count := 0,
       cb_task_id := tid, cb_model_name := mdl\<rparr>"

definition reset_flags :: "state \<Rightarrow> state" where
  "reset_flags s = s\<lparr>response_provided := False, verified := False, last_verify_payload := []\<rparr>"

definition run_agent ::
  "env \<Rightarrow> string \<Rightarrow> string \<Rightarrow> event list \<Rightarrow> ending \<Rightarrow> state \<Rightarrow> exn option \<times> state" where
  "run_agent env mdl tid evs ending s =
     (let s0 = reset_flags s in
      case startup env of
        Some e \<Rightarrow> (Some e, s0)
      | None \<Rightarrow>
          (let s1 = new_callback tid mdl s0;
               s2 = exec_events env evs s1
           in case ending of
                Returned \<Rightarrow> (None, log_final_stats (auto_complete env s2))
              | Raised e \<Rightarrow> (Some e, log_final_stats (send_error_internal env s2))))"

subsection \<open>Example inputs\<close>

text \<open>
  An API that accepts every request, and one that rejects the first request it receives
  with a domain error and accepts the later ones. The texts of the examples are ASCII, so
  the two string methods are given by their ASCII tables.
\<close>

definition example_env :: env where
  "example_env =
     \<lparr>lower = ascii_lower,
      strip = ascii_strip,
      dispatch = (\<lambda>history request. Inr (ApiResult ''{}'')),
      json_dumps = (\<lambda>v. Inr ''[]''),
      startup = None\<rparr>"

definition rate_limited_env :: env where
  "rate_limited_env =
     \<lparr>lower = ascii_lower,
      strip = ascii_strip,
      dispatch = (\<lambda>history request.
        if history = [] then Inl (ApiException ''rate limited'' ''too many requests'')
        else Inr (ApiResult ''{}'')),
      json_dumps = (\<lambda>v. Inr ''[]''),
      startup = None\<rparr>"

definition initial_state :: state where
  "initial_state =
     \<lparr>response_provided = False, verified = False, last_verify_payload = [],
      dispatched = [], llm_logged = [], start_time = None, total_duration = 0,
      total_completion_tokens = 0, total_prompt_tokens = 0, total_tokens = 0,
      call_count = 0, cb_task_id = [], cb_model_name = []\<rparr>"

definition respond_tool :: tool where
  "respond_tool =
     \<lparr>name = ''Req_ProvideAgentResponse'',
      request_class = (\<lambda>kwargs. Inr (ApiRequest ''Req_ProvideAgentResponse'' kwargs))\<rparr>"

definition search_tool :: tool where
  "search_tool =
     \<lparr>name = ''Req_SearchProjects'',
      request_class = (\<lambda>kwargs. Inr (ApiRequest ''Req_SearchProjects'' kwargs))\<rparr>"

definition answer_args :: kwargs where
  "answer_args = [(''message'', VStr ''Done.''), (''outcome'', VStr ''ok_answer'')]"

definition denial_args :: kwargs where
  "denial_args = [(''message'', VStr ''No.''), (''outcome'', VStr ''denied_security'')]"

definition search_args :: kwargs where
  "search_args = [(''query'', VStr ''apollo''), (''page'', VInt 9)]"

definition verify_emp_1 :: VerifyInput where
  "verify_emp_1 =
     \<lparr>outcome = ''ok_answer'', employee_links = ''emp_1'', project_links = ''none'',
      customer_links = ''none'', made_modifications = False, permissions_checked = False,
      wiki_checked = True, reasoning = ''The lead is emp_1.''\<rparr>"

definition verify_not_found :: VerifyInput where
  "verify_not_found =
     \<lparr>outcome = ''ok_not_found'', employee_links = ''none'', project_links = ''none'',
      customer_links = ''none'', made_modifications = True, permissions_checked = True,
      wiki_checked = True, reasoning = ''No such project.''\<rparr>"



section \<open>Properties\<close>

lemmas example_defs =
  example_env_def rate_limited_env_def initial_state_def respond_tool_def search_tool_def
  answer_args_def denial_args_def search_args_def

subsection \<open>The tool wrapper\<close>

lemma run_try_reject:
  "clamp_page kwargs = Inl e \<Longrightarrow> run_try env t kwargs s = (Inl e, s)"
  "clamp_page kwargs = Inr kw \<Longrightarrow> request_class t kw = Inl e \<Longrightarrow>
     run_try env t kwargs s = (Inl e, s)"
  by (simp_all add: run_try_def)

lemma run_try_dispatch:
  "clamp_page kwargs = Inr kw \<Longrightarrow> request_class t kw = Inr r \<Longrightarrow>
     run_try env t kwargs s = dispatch_request env t r s"
  by (simp add: run_try_def)

lemma dispatch_request_raises:
  "dispatch env (dispatched s) r = Inl e \<Longrightarrow>
     dispatch_request env t r s = (Inl e, s\<lparr>dispatched := dispatched s @ [r]\<rparr>)"
  by (simp add: dispatch_request_def)

lemma dispatch_request_returns:
  "dispatch env (dispatched s) r = Inr res \<Longrightarrow>
     dispatch_request env t r s =
       (if name t = ''Req_ProvideAgentResponse''
        then (Inr (model_dump_json res @ completed_suffix),
              s\<lparr>dispatched := dispatched s @ [r], response_provided := True\<rparr>)
        else (Inr (model_dump_json res), s\<lparr>dispatched := dispatched s @ [r]\<rparr>))"
  by (simp add: dispatch_request_def)

lemma run_try_keeps:
  "verified (snd (run_try env t kwargs s)) = verified s"
  "last_verify_payload (snd (run_try env t kwargs s)) = last_verify_payload s"
  "llm_logged (snd (run_try env t kwargs s)) = llm_logged s"
  "call_count (snd (run_try env t kwargs s)) = call_count s"
  "cb_task_id (snd (run_try env t kwargs s)) = cb_task_id s"
  "cb_model_name (snd (run_try env t kwargs s)) = cb_model_name s"
  by (simp_all add: run_try_def dispatch_request_def Let_def split: sum.splits)

lemma run_try_latch:
  "response_provided s \<Longrightarrow> response_provided (snd (run_try env t kwargs s))"
  by (auto simp: run_try_def dispatch_request_def Let_def split: sum.splits)

lemma ERC3Tool_run_snd:
  "snd (ERC3Tool_run env t kwargs s) =
     (if response_provided s \<and> name t = ''Req_ProvideAgentResponse'' then s
      else snd (run_try env t kwargs s))"
  by (simp add: ERC3Tool_run_def split: prod.splits sum.splits exn.splits)

lemma ERC3Tool_run_keeps:
  "verified (snd (ERC3Tool_run env t kwargs s)) = verified s"
  "last_verify_payload (snd (ERC3Tool_run env t kwargs s)) = last_verify_payload s"
  "llm_logged (snd (ERC3Tool_run env t kwargs s)) = llm_logged s"
  "call_count (snd (ERC3Tool_run env t kwargs s)) = call_count s"
  "cb_task_id (snd (ERC3Tool_run env t kwargs s)) = cb_task_id s"
  "cb_model_name (snd (ERC3Tool_run env t kwargs s)) = cb_model_name s"
  by (simp_all add: ERC3Tool_run_snd run_try_keeps)

lemma ERC3Tool_run_latch:
  "response_provided s \<Longrightarrow> response_provided (snd (ERC3Tool_run env t kwargs s))"
  by (simp add: ERC3Tool_run_snd run_try_latch)

lemma ERC3Tool_run_returns: "\<exists>txt. fst (ERC3Tool_run env t kwargs s) = Inr txt"
  by (simp add: ERC3Tool_run_def split: prod.splits sum.splits exn.splits)

lemma run_success_latch:
  assumes "name t = ''Req_ProvideAgentResponse''"
      and "clamp_page kwargs = Inr kw" and "request_class t kw = Inr r"
      and "dispatch env (dispatched s) r = Inr res"
  shows "response_provided (snd (ERC3Tool_run env t kwargs s))"
  using assms by (simp add: ERC3Tool_run_def run_try_def dispatch_request_def Let_def)

lemma latch_set_only_by_success:
  assumes "\<not> response_provided s"
      and "response_provided (snd (ERC3Tool_run env t kwargs s))"
  shows "name t = ''Req_ProvideAgentResponse'' \<and>
         (\<exists>kw r res. clamp_page kwargs = Inr kw \<and> request_class t kw = Inr r \<and>
            dispatch env (dispatched s) r = Inr res)"
  using assms
  by (auto simp: ERC3Tool_run_def run_try_def dispatch_request_def Let_def
           split: sum.splits exn.splits if_splits)

lemma clamp_page_int:
  "map_of kwargs ''page'' = Some (VInt n) \<Longrightarrow>
     clamp_page kwargs = Inr (if n > 5 then AList.update ''page'' (VInt 5) kwargs else kwargs)"
  by (simp add: clamp_page_def)

lemma clamp_page_idem:
  "clamp_page (AList.update ''page'' (VInt 5) kwargs) =
     Inr (AList.update ''page'' (VInt 5) kwargs)"
  by (simp add: clamp_page_def update_conv')

subsection \<open>The callback and the events of the loop\<close>

lemma record_usage_flags:
  "response_provided (record_usage env d r s) = response_provided s"
  "verified (record_usage env d r s) = verified s"
  "last_verify_payload (record_usage env d r s) = last_verify_payload s"
  "dispatched (record_usage env d r s) = dispatched s"
  "call_count (record_usage env d r s) = call_count s"
  "start_time (record_usage env d r s) = start_time s"
  "cb_task_id (record_usage env d r s) = cb_task_id s"
  "cb_model_name (record_usage env d r s) = cb_model_name s"
  by (simp_all add: record_usage_def Let_def split: sum.splits prod.splits)

lemma on_llm_end_flags:
  "response_provided (on_llm_end env now r s) = response_provided s"
  "verified (on_llm_end env now r s) = verified s"
  "last_verify_payload (on_llm_end env now r s) = last_verify_payload s"
  "dispatched (on_llm_end env now r s) = dispatched s"
  by (simp_all add: on_llm_end_def Let_def record_usage_flags split: option.splits)


lemma exec_event_latch:
  "response_provided s \<Longrightarrow> response_provided (exec_event env ev s)"
  by (cases ev)
     (simp_all add: ERC3Tool_run_latch verify_function_def Let_def on_llm_start_def
        on_llm_end_flags)

lemma exec_events_latch:
  "response_provided s \<Longrightarrow> response_provided (exec_events env evs s)"
  by (induction evs arbitrary: s) (simp_all add: exec_event_latch)


lemma exec_event_keeps_payload:
  "\<forall>a. ev \<noteq> Verify a \<Longrightarrow>
     verified (exec_event env ev s) = verified s \<and>
     last_verify_payload (exec_event env ev s) = last_verify_payload s"
  by (cases ev) (simp_all add: ERC3Tool_run_keeps on_llm_start_def on_llm_end_flags)

lemma exec_events_keep_payload:
  "\<forall>a. Verify a \<notin> set evs \<Longrightarrow>
     verified (exec_events env evs s) = verified s \<and>
     last_verify_payload (exec_events env evs s) = last_verify_payload s"
proof (induction evs arbitrary: s)
  case Nil
  then show ?case by simp
next
  case (Cons ev evs)
  then have "\<forall>a. ev \<noteq> Verify a" and "\<forall>a. Verify a \<notin> set evs" by auto
  then show ?case
    using Cons.IH [of "exec_event env ev s"] exec_event_keeps_payload [of ev env s] by simp
qed




subsection \<open>Claims about the tool wrapper\<close>

text \<open>
  Claim C1. Once a call of the tool named \<^verbatim>\<open>Req_ProvideAgentResponse\<close> has succeeded
  (its request was built and the dispatch returned), the latch is set, and after any further
  events of the loop every call of a tool of that name, with any arguments, returns the
  text \<open>already_completed\<close> and leaves the whole state as it is; in particular nothing
  is added to the requests dispatched. So at most one terminal request that the API
  accepted comes from the tool path.
\<close>

theorem terminal_tool_at_most_once:
  assumes "name t = ''Req_ProvideAgentResponse''"
      and "name t' = ''Req_ProvideAgentResponse''"
      and "clamp_page kwargs = Inr kw" and "request_class t kw = Inr r"
      and "dispatch env (dispatched s) r = Inr res"
  shows "ERC3Tool_run env t' kwargs' (exec_events env evs (snd (ERC3Tool_run env t kwargs s))) =
           (Inr already_completed, exec_events env evs (snd (ERC3Tool_run env t kwargs s)))"
proof -
  have "response_provided (snd (ERC3Tool_run env t kwargs s))"
    using assms(1,3,4,5) by (rule run_success_latch)
  then have "response_provided (exec_events env evs (snd (ERC3Tool_run env t kwargs s)))"
    by (rule exec_events_latch)
  with assms(2) show ?thesis by (simp add: ERC3Tool_run_def)
qed

theorem terminal_tool_at_most_once_witness:
  "ERC3Tool_run example_env respond_tool denial_args
     (exec_events example_env [ToolCall search_tool search_args]
        (snd (ERC3Tool_run example_env respond_tool answer_args initial_state))) =
   (Inr already_completed,
    exec_events example_env [ToolCall search_tool search_args]
      (snd (ERC3Tool_run example_env respond_tool answer_args initial_state))) \<and>
   dispatched (snd (ERC3Tool_run example_env respond_tool denial_args
     (exec_events example_env [ToolCall search_tool search_args]
        (snd (ERC3Tool_run example_env respond_tool answer_args initial_state))))) =
   [ApiRequest ''Req_ProvideAgentResponse'' answer_args,
    ApiRequest ''Req_SearchProjects'' [(''query'', VStr ''apollo''), (''page'', VInt 5)]]"
proof -
  have 1: "name respond_tool = ''Req_ProvideAgentResponse''"
    by (simp add: respond_tool_def)
  have 2: "clamp_page answer_args = Inr answer_args"
    by (simp add: clamp_page_def answer_args_def)
  have 3: "request_class respond_tool answer_args =
             Inr (ApiRequest ''Req_ProvideAgentResponse'' answer_args)"
    by (simp add: respond_tool_def)
  have 4: "dispatch example_env (dispatched initial_state)
             (ApiRequest ''Req_ProvideAgentResponse'' answer_args) = Inr (ApiResult ''{}'')"
    by (simp add: example_env_def)
  have 5: "dispatched (exec_events example_env [ToolCall search_tool search_args]
      (snd (ERC3Tool_run example_env respond_tool answer_args initial_state))) =
      [ApiRequest ''Req_ProvideAgentResponse'' answer_args,
       ApiRequest ''Req_SearchProjects'' [(''query'', VStr ''apollo''), (''page'', VInt 5)]]"
    by (simp add: ERC3Tool_run_def run_try_def dispatch_request_def clamp_page_def example_defs)
  show ?thesis
    using terminal_tool_at_most_once [OF 1 1 2 3 4, of denial_args
            "[ToolCall search_tool search_args]"] 5
    by simp
qed

text \<open>
  Claim C5. \<^verbatim>\<open>ERC3Tool._run\<close> never raises: for every tool, arguments and state the
  result is a returned text. When the call is not answered by the latch: if the dispatch
  raises the domain exception with detail \<open>d\<close>, the text is \<^verbatim>\<open>API Error: \<close> followed
  by \<open>d\<close>; if the dispatch, the construction of the request or the page comparison raises
  another exception with message \<open>m\<close>, the text is \<^verbatim>\<open>Error: \<close> followed by \<open>m\<close>.
\<close>

theorem run_never_raises:
  "(\<exists>txt. fst (ERC3Tool_run env t kwargs s) = Inr txt) \<and>
   (\<not> (response_provided s \<and> name t = ''Req_ProvideAgentResponse'') \<longrightarrow>
      (\<forall>kw r d err m.
         (clamp_page kwargs = Inr kw \<and> request_class t kw = Inr r \<and>
          dispatch env (dispatched s) r = Inl (ApiException d err) \<longrightarrow>
            fst (ERC3Tool_run env t kwargs s) = Inr (''API Error: '' @ d)) \<and>
         (clamp_page kwargs = Inr kw \<and> request_class t kw = Inr r \<and>
          dispatch env (dispatched s) r = Inl (OtherException m) \<longrightarrow>
            fst (ERC3Tool_run env t kwargs s) = Inr (''Error: '' @ m)) \<and>
         (clamp_page kwargs = Inr kw \<and> request_class t kw = Inl (OtherException m) \<longrightarrow>
            fst (ERC3Tool_run env t kwargs s) = Inr (''Error: '' @ m)) \<and>
         (clamp_page kwargs = Inl (OtherException m) \<longrightarrow>
            fst (ERC3Tool_run env t kwargs s) = Inr (''Error: '' @ m))))"
proof (intro conjI impI allI)
  show "\<exists>txt. fst (ERC3Tool_run env t kwargs s) = Inr txt"
    by (rule ERC3Tool_run_returns)
next
  fix kw r d err
  assume "\<not> (response_provided s \<and> name t = ''Req_ProvideAgentResponse'')"
    and "clamp_page kwargs = Inr kw \<and> request_class t kw = Inr r \<and>
         dispatch env (dispatched s) r = Inl (ApiException d err)"
  then show "fst (ERC3Tool_run env t kwargs s) = Inr (''API Error: '' @ d)"
    by (auto simp: ERC3Tool_run_def run_try_dispatch dispatch_request_raises)
next
  fix kw r m
  assume "\<not> (response_provided s \<and> name t = ''Req_ProvideAgentResponse'')"
    and "clamp_page kwargs = Inr kw \<and> request_class t kw = Inr r \<and>
         dispatch env (dispatched s) r = Inl (OtherException m)"
  then show "fst (ERC3Tool_run env t kwargs s) = Inr (''Error: '' @ m)"
    by (auto simp: ERC3Tool_run_def run_try_dispatch dispatch_request_raises)
next
  fix kw m
  assume "\<not> (response_provided s \<and> name t = ''Req_ProvideAgentResponse'')"
    and "clamp_page kwargs = Inr kw \<and> request_class t kw = Inl (OtherException m)"
  then show "fst (ERC3Tool_run env t kwargs s) = Inr (''Error: '' @ m)"
    by (auto simp: ERC3Tool_run_def run_try_reject)
next
  fix m
  assume "\<not> (response_provided s \<and> name t = ''Req_ProvideAgentResponse'')"
    and "clamp_page kwargs = Inl (OtherException m)"
  then show "fst (ERC3Tool_run env t kwargs s) = Inr (''Error: '' @ m)"
    by (auto simp: ERC3Tool_run_def run_try_reject)
qed

theorem run_never_raises_witness:
  "fst (ERC3Tool_run rate_limited_env search_tool search_args initial_state) =
     Inr ''API Error: rate limited''"
proof -
  have 1: "\<not> (response_provided initial_state \<and> name search_tool = ''Req_ProvideAgentResponse'')"
    by (simp add: initial_state_def)
  have 2: "clamp_page search_args =
             Inr [(''query'', VStr ''apollo''), (''page'', VInt 5)] \<and>
           request_class search_tool [(''query'', VStr ''apollo''), (''page'', VInt 5)] =
             Inr (ApiRequest ''Req_SearchProjects''
                    [(''query'', VStr ''apollo''), (''page'', VInt 5)]) \<and>
           dispatch rate_limited_env (dispatched initial_state)
             (ApiRequest ''Req_SearchProjects''
                [(''query'', VStr ''apollo''), (''page'', VInt 5)]) =
             Inl (ApiException ''rate limited'' ''too many requests'')"
    by (simp add: clamp_page_def example_defs)
  have "fst (ERC3Tool_run rate_limited_env search_tool search_args initial_state) =
          Inr (''API Error: '' @ ''rate limited'')"
    using run_never_raises [of rate_limited_env search_tool search_args initial_state] 1 2
    by blast
  then show ?thesis by simp
qed

text \<open>
  Claim C6. If the arguments hold an integer \<open>n\<close> under \<^verbatim>\<open>page\<close>, the page limit does
  not reject them: the request object is built from the arguments with \<^verbatim>\<open>page\<close> set to
  5 when \<open>n > 5\<close> and from the arguments as they are when \<open>n \<le> 5\<close>, and that object is
  what is dispatched. The other fields and the order of the fields are unchanged, and the
  call behaves as the call with the limited arguments does.
\<close>

theorem page_clamped:
  assumes "map_of kwargs ''page'' = Some (VInt n)"
  defines "kw \<equiv> (if n > 5 then AList.update ''page'' (VInt 5) kwargs else kwargs)"
  shows "clamp_page kwargs = Inr kw \<and>
         map_of kw ''page'' = Some (VInt (min n 5)) \<and>
         (\<forall>k. k \<noteq> ''page'' \<longrightarrow> map_of kw k = map_of kwargs k) \<and>
         map fst kw = map fst kwargs \<and>
         run_try env t kwargs s =
           (case request_class t kw of
              Inl e \<Rightarrow> (Inl e, s)
            | Inr request \<Rightarrow> dispatch_request env t request s) \<and>
         ERC3Tool_run env t kwargs s = ERC3Tool_run env t kw s"
proof -
  have c: "clamp_page kwargs = Inr kw"
    using assms(1) by (simp add: kw_def clamp_page_int)
  have c': "clamp_page kw = Inr kw"
    using assms(1) by (auto simp: kw_def clamp_page_int clamp_page_idem)
  have p: "map_of kw ''page'' = Some (VInt (min n 5))"
    using assms(1) by (simp add: kw_def update_conv' min_def)
  have o: "\<forall>k. k \<noteq> ''page'' \<longrightarrow> map_of kw k = map_of kwargs k"
    by (simp add: kw_def update_conv')
  have "''page'' \<in> fst ` set kwargs"
    using assms(1) by (metis map_of_eq_None_iff option.distinct(1))
  then have k: "map fst kw = map fst kwargs"
    by (simp add: kw_def update_keys)
  have r: "run_try env t kwargs s =
           (case request_class t kw of
              Inl e \<Rightarrow> (Inl e, s)
            | Inr request \<Rightarrow> dispatch_request env t request s)"
    by (simp add: run_try_def c)
  have "run_try env t kw s = run_try env t kwargs s"
    by (simp add: run_try_def c c')
  then have e: "ERC3Tool_run env t kwargs s = ERC3Tool_run env t kw s"
    by (simp add: ERC3Tool_run_def)
  from c p o k r e show ?thesis by blast
qed

theorem page_clamped_witness:
  "clamp_page search_args = Inr [(''query'', VStr ''apollo''), (''page'', VInt 5)] \<and>
   ERC3Tool_run example_env search_tool search_args initial_state =
     (Inr ''{}'',
      initial_state\<lparr>dispatched :=
        [ApiRequest ''Req_SearchProjects'' [(''query'', VStr ''apollo''), (''page'', VInt 5)]]\<rparr>)"
proof -
  have 1: "map_of search_args ''page'' = Some (VInt 9)"
    by (simp add: search_args_def)
  have 2: "ERC3Tool_run example_env search_tool
             [(''query'', VStr ''apollo''), (''page'', VInt 5)] initial_state =
           (Inr ''{}'',
            initial_state\<lparr>dispatched :=
              [ApiRequest ''Req_SearchProjects''
                 [(''query'', VStr ''apollo''), (''page'', VInt 5)]]\<rparr>)"
    by (simp add: ERC3Tool_run_def run_try_def dispatch_request_def clamp_page_def example_defs)
  show ?thesis
    using page_clamped [OF 1, of example_env search_tool initial_state] 2
    by (simp add: search_args_def)
qed

text \<open>
  Claim C10. With the latch unset: if a call of the tool named
  \<^verbatim>\<open>Req_ProvideAgentResponse\<close> reaches the dispatch and the dispatch raises, the call
  returns the error text, the latch stays unset and nothing but the list of dispatched
  requests has changed, so a later call of the tool is dispatched as usual and, when its
  dispatch returns, sets the latch. And whenever a call of any tool leaves the latch set,
  the tool has that name and its dispatch returned.
\<close>

theorem failed_terminal_call_keeps_latch:
  assumes "\<not> response_provided s"
  shows "(name t = ''Req_ProvideAgentResponse'' \<and> clamp_page kwargs = Inr kw \<and>
          request_class t kw = Inr r \<and> dispatch env (dispatched s) r = Inl e \<longrightarrow>
            ERC3Tool_run env t kwargs s =
              (Inr (case e of ApiException d err \<Rightarrow> ''API Error: '' @ d
                    | OtherException m \<Rightarrow> ''Error: '' @ m),
               s\<lparr>dispatched := dispatched s @ [r]\<rparr>) \<and>
            \<not> response_provided (snd (ERC3Tool_run env t kwargs s)) \<and>
            (\<forall>kwargs2 kw2 r2 res.
               clamp_page kwargs2 = Inr kw2 \<and> request_class t kw2 = Inr r2 \<and>
               dispatch env (dispatched s @ [r]) r2 = Inr res \<longrightarrow>
                 ERC3Tool_run env t kwargs2 (snd (ERC3Tool_run env t kwargs s)) =
                   (Inr (model_dump_json res @ completed_suffix),
                    s\<lparr>dispatched := dispatched s @ [r, r2], response_provided := True\<rparr>))) \<and>
         (response_provided (snd (ERC3Tool_run env t kwargs s)) \<longrightarrow>
            name t = ''Req_ProvideAgentResponse'' \<and>
            (\<exists>kw r res. clamp_page kwargs = Inr kw \<and> request_class t kw = Inr r \<and>
               dispatch env (dispatched s) r = Inr res))"
proof (intro conjI impI)
  assume a: "name t = ''Req_ProvideAgentResponse'' \<and> clamp_page kwargs = Inr kw \<and>
          request_class t kw = Inr r \<and> dispatch env (dispatched s) r = Inl e"
  show 1: "ERC3Tool_run env t kwargs s =
           (Inr (case e of ApiException d err \<Rightarrow> ''API Error: '' @ d
                 | OtherException m \<Rightarrow> ''Error: '' @ m),
            s\<lparr>dispatched := dispatched s @ [r]\<rparr>)"
    using assms a
    by (simp add: ERC3Tool_run_def run_try_dispatch dispatch_request_raises split: exn.splits)
  then show "\<not> response_provided (snd (ERC3Tool_run env t kwargs s))"
    using assms by simp
  show "\<forall>kwargs2 kw2 r2 res.
               clamp_page kwargs2 = Inr kw2 \<and> request_class t kw2 = Inr r2 \<and>
               dispatch env (dispatched s @ [r]) r2 = Inr res \<longrightarrow>
                 ERC3Tool_run env t kwargs2 (snd (ERC3Tool_run env t kwargs s)) =
                   (Inr (model_dump_json res @ completed_suffix),
                    s\<lparr>dispatched := dispatched s @ [r, r2], response_provided := True\<rparr>)"
    unfolding 1 using assms a
    by (simp add: ERC3Tool_run_def run_try_dispatch dispatch_request_returns)
next
  assume "response_provided (snd (ERC3Tool_run env t kwargs s))"
  with assms show "name t = ''Req_ProvideAgentResponse''"
    and "\<exists>kw r res. clamp_page kwargs = Inr kw \<and> request_class t kw = Inr r \<and>
               dispatch env (dispatched s) r = Inr res"
    using latch_set_only_by_success [of s env t kwargs] by simp_all
qed

theorem failed_terminal_call_keeps_latch_witness:
  "ERC3Tool_run rate_limited_env respond_tool answer_args initial_state =
     (Inr ''API Error: rate limited'',
      initial_state\<lparr>dispatched := [ApiRequest ''Req_ProvideAgentResponse'' answer_args]\<rparr>) \<and>
   ERC3Tool_run rate_limited_env respond_tool denial_args
     (snd (ERC3Tool_run rate_limited_env respond_tool answer_args initial_state)) =
     (Inr (''{}'' @ completed_suffix),
      initial_state\<lparr>dispatched := [ApiRequest ''Req_ProvideAgentResponse'' answer_args,
                                     ApiRequest ''Req_ProvideAgentResponse'' denial_args],
                     response_provided := True\<rparr>)"
proof -
  have 0: "\<not> response_provided initial_state"
    by (simp add: initial_state_def)
  have 1: "name respond_tool = ''Req_ProvideAgentResponse'' \<and>
           clamp_page answer_args = Inr answer_args \<and>
           request_class respond_tool answer_args =
             Inr (ApiRequest ''Req_ProvideAgentResponse'' answer_args) \<and>
           dispatch rate_limited_env (dispatched initial_state)
             (ApiRequest ''Req_ProvideAgentResponse'' answer_args) =
             Inl (ApiException ''rate limited'' ''too many requests'')"
    by (simp add: clamp_page_def example_defs)
  have 2: "clamp_page denial_args = Inr denial_args \<and>
           request_class respond_tool denial_args =
             Inr (ApiRequest ''Req_ProvideAgentResponse'' denial_args) \<and>
           dispatch rate_limited_env
             (dispatched initial_state @ [ApiRequest ''Req_ProvideAgentResponse'' answer_args])
             (ApiRequest ''Req_ProvideAgentResponse'' denial_args) = Inr (ApiResult ''{}'')"
    by (simp add: clamp_page_def example_defs)
  have 3: "dispatched initial_state = []"
    by (simp add: initial_state_def)
  note w = failed_terminal_call_keeps_latch [OF 0, of respond_tool answer_args answer_args
      "ApiRequest ''Req_ProvideAgentResponse'' answer_args" rate_limited_env
      "ApiException ''rate limited'' ''too many requests''"]
  have a: "ERC3Tool_run rate_limited_env respond_tool answer_args initial_state =
          (Inr (case ApiException ''rate limited'' ''too many requests'' of
                  ApiException d err \<Rightarrow> ''API Error: '' @ d
                | OtherException m \<Rightarrow> ''Error: '' @ m),
           initial_state\<lparr>dispatched :=
             dispatched initial_state @ [ApiRequest ''Req_ProvideAgentResponse'' answer_args]\<rparr>)"
    using w 1 by blast
  have b: "ERC3Tool_run rate_limited_env respond_tool denial_args
             (snd (ERC3Tool_run rate_limited_env respond_tool answer_args initial_state)) =
           (Inr (model_dump_json (ApiResult ''{}'') @ completed_suffix),
            initial_state\<lparr>dispatched :=
              dispatched initial_state @
              [ApiRequest ''Req_ProvideAgentResponse'' answer_args,
               ApiRequest ''Req_ProvideAgentResponse'' denial_args],
              response_provided := True\<rparr>)"
    using w 1 2 by blast
  show ?thesis
    using a b by (simp add: 3)
qed

subsection \<open>Claims about the verification checkpoint\<close>

lemma verify_function_keeps:
  "response_provided (snd (verify_function env a s)) = response_provided s"
  "dispatched (snd (verify_function env a s)) = dispatched s"
  "llm_logged (snd (verify_function env a s)) = llm_logged s"
  "call_count (snd (verify_function env a s)) = call_count s"
  by (simp_all add: verify_function_def Let_def)





subsection \<open>The fallback completion\<close>

lemma split_comma_plain: "CHR '','' \<notin> set x \<Longrightarrow> split_comma x = [x]"
  by (induction x) auto

lemma split_comma_append:
  "CHR '','' \<notin> set x \<Longrightarrow> split_comma (x @ CHR '','' # rest) = x # split_comma rest"
  by (induction x) auto

lemma split_comma_join:
  "ids \<noteq> [] \<Longrightarrow> \<forall>x \<in> set ids. CHR '','' \<notin> set x \<Longrightarrow> split_comma (join '','' ids) = ids"
proof (induction "'',''" ids rule: join.induct)
  case 1
  then show ?case by simp
next
  case (2 x)
  then show ?case by (simp add: split_comma_plain)
next
  case (3 x y ys)
  then show ?case using split_comma_append [of x "join '','' (y # ys)"] by simp
qed

lemma ascii_strip_clean:
  assumes "x \<noteq> []" and "\<not> ascii_isspace (hd x)" and "\<not> ascii_isspace (last x)"
  shows "ascii_strip x = x"
proof -
  from assms have 1: "dropWhile ascii_isspace x = x" by (cases x) simp_all
  from assms have "dropWhile ascii_isspace (rev x) = rev x"
    by (cases "rev x") (simp_all add: last_rev [symmetric] hd_rev)
  with 1 show ?thesis by (simp add: ascii_strip_def)
qed

text \<open>
  What a link list contributes when it is written as the claim describes it: identifiers
  without commas that \<^verbatim>\<open>strip\<close> leaves as they are (no blanks at their ends),
  separated by commas.
\<close>

lemma links_of_join:
  assumes "ids \<noteq> []"
      and "\<forall>x \<in> set ids. x \<noteq> [] \<and> CHR '','' \<notin> set x \<and> strip env x = x"
      and "lower env (join '','' ids) \<noteq> ''none''"
  shows "links_of env kind (Some (join '','' ids)) = map (Pair kind) ids"
proof -
  have s: "split_comma (join '','' ids) = ids"
    using assms(1,2) by (intro split_comma_join) auto
  have m: "map (strip env) ids = ids"
    using assms(2) by (intro map_idI) auto
  have f: "filter (\<lambda>item. item \<noteq> []) ids = ids"
    using assms(2) by (intro filter_True) auto
  have n: "join '','' ids \<noteq> []"
  proof (cases ids)
    case Nil
    with assms(1) show ?thesis by simp
  next
    case (Cons x rest)
    with assms(2) have "x \<noteq> []" by simp
    with Cons show ?thesis by (cases rest) simp_all
  qed
  show ?thesis
    using assms(3) n by (simp add: links_of_def s m f)
qed

lemma links_of_none: "lower env raw = ''none'' \<Longrightarrow> links_of env kind (Some raw) = []"
  by (simp add: links_of_def)

lemma links_of_kind: "l \<in> set (links_of env kind raw) \<Longrightarrow> fst l = kind"
  by (auto simp: links_of_def split: option.splits if_splits)

lemma payload_links_kinds: "l \<in> set (payload_links env p) \<Longrightarrow> fst l \<in> set link_kinds"
  by (auto simp: payload_links_def link_kinds_def dest: links_of_kind)

lemma payload_links_verify:
  "payload_links env (verify_payload a) =
     links_of env ''employee'' (Some (employee_links a)) @
     links_of env ''project'' (Some (project_links a)) @
     links_of env ''customer'' (Some (customer_links a))"
  by (simp add: payload_links_def verify_payload_def)

lemma outcome_kinds_nonempty: "oc \<in> set outcome_kinds \<Longrightarrow> oc \<noteq> []"
  by (auto simp: outcome_kinds_def)

lemma Req_ProvideAgentResponse_valid:
  "oc \<in> set outcome_kinds \<Longrightarrow> \<forall>l \<in> set lks. fst l \<in> set link_kinds \<Longrightarrow>
     Req_ProvideAgentResponse ''/respond'' msg oc lks =
       Inr (ProvideAgentResponse ''/respond'' msg oc lks)"
  by (simp add: Req_ProvideAgentResponse_def)

lemma auto_req_verify:
  assumes "outcome a \<in> set outcome_kinds"
  shows "auto_req env (verify_payload a) =
           Inr (ProvideAgentResponse ''/respond''
              (if reasoning a = [] then ''Auto-submitted based on verification step.''
               else reasoning a)
              (outcome a)
              (if outcome a \<in> {''error_internal'', ''denied_security'', ''none_unsupported''}
               then []
               else links_of env ''employee'' (Some (employee_links a)) @
                    links_of env ''project'' (Some (project_links a)) @
                    links_of env ''customer'' (Some (customer_links a))))"
proof -
  have oc: "get_or (verify_payload a) ''outcome'' ''error_internal'' = outcome a"
    using outcome_kinds_nonempty [OF assms] by (simp add: get_or_def verify_payload_def)
  have msg: "get_or (verify_payload a) ''reasoning'' ''Auto-submitted based on verification step.'' =
       (if reasoning a = [] then ''Auto-submitted based on verification step.'' else reasoning a)"
    by (simp add: get_or_def verify_payload_def)
  have lks: "\<forall>l \<in> set (if outcome a \<notin> safe_outcomes_no_links
                        then payload_links env (verify_payload a) else []). fst l \<in> set link_kinds"
    by (auto dest: payload_links_kinds)
  have "auto_req env (verify_payload a) =
          Inr (ProvideAgentResponse ''/respond''
             (if reasoning a = [] then ''Auto-submitted based on verification step.''
              else reasoning a)
             (outcome a)
             (if outcome a \<notin> safe_outcomes_no_links
              then payload_links env (verify_payload a) else []))"
    unfolding auto_req_def Let_def oc msg
    using assms lks by (rule Req_ProvideAgentResponse_valid)
  then show ?thesis
    by (simp add: safe_outcomes_no_links_def payload_links_verify)
qed

lemma auto_complete_dispatches:
  assumes "\<not> response_provided s" and "verified s" and "last_verify_payload s \<noteq> []"
      and "auto_req env (last_verify_payload s) = Inr request"
  shows "dispatched (auto_complete env s) = dispatched s @ [request]"
  using assms by (simp add: auto_complete_def Let_def split: sum.splits)

lemma auto_complete_verified:
  assumes "\<not> response_provided s" and "verified s"
      and "last_verify_payload s = verify_payload a"
      and "outcome a \<in> set outcome_kinds"
  shows "dispatched (auto_complete env s) =
           dispatched s @
           [ProvideAgentResponse ''/respond''
              (if reasoning a = [] then ''Auto-submitted based on verification step.''
               else reasoning a)
              (outcome a)
              (if outcome a \<in> {''error_internal'', ''denied_security'', ''none_unsupported''}
               then []
               else links_of env ''employee'' (Some (employee_links a)) @
                    links_of env ''project'' (Some (project_links a)) @
                    links_of env ''customer'' (Some (customer_links a)))]"
proof -
  have ne: "last_verify_payload s \<noteq> []"
    by (simp add: assms(3) verify_payload_def)
  have "auto_req env (last_verify_payload s) =
           Inr (ProvideAgentResponse ''/respond''
              (if reasoning a = [] then ''Auto-submitted based on verification step.''
               else reasoning a)
              (outcome a)
              (if outcome a \<in> {''error_internal'', ''denied_security'', ''none_unsupported''}
               then []
               else links_of env ''employee'' (Some (employee_links a)) @
                    links_of env ''project'' (Some (project_links a)) @
                    links_of env ''customer'' (Some (customer_links a))))"
    unfolding assms(3) using assms(4) by (rule auto_req_verify)
  with assms(1,2) ne show ?thesis
    by (rule auto_complete_dispatches)
qed

lemma auto_complete_unverified: "\<not> verified s \<Longrightarrow> auto_complete env s = s"
  by (simp add: auto_complete_def)

lemma send_error_internal_dispatched:
  "\<not> response_provided s \<Longrightarrow>
     dispatched (send_error_internal env s) =
       dispatched s @
       [ProvideAgentResponse ''/respond'' internal_error_message ''error_internal'' []]"
  by (simp add: send_error_internal_def Req_ProvideAgentResponse_def outcome_kinds_def)

lemma log_final_stats_keeps:
  "dispatched (log_final_stats s) = dispatched s"
  "response_provided (log_final_stats s) = response_provided s"
  by (simp_all add: log_final_stats_def)


lemma start_of_loop:
  "\<not> verified (new_callback tid mdl (reset_flags s))"
  "\<not> response_provided (new_callback tid mdl (reset_flags s))"
  "dispatched (new_callback tid mdl (reset_flags s)) = dispatched s"
  "llm_logged (new_callback tid mdl (reset_flags s)) = llm_logged s"
  "call_count (new_callback tid mdl (reset_flags s)) = 0"
  "cb_task_id (new_callback tid mdl (reset_flags s)) = tid"
  "cb_model_name (new_callback tid mdl (reset_flags s)) = mdl"
  by (simp_all add: new_callback_def reset_flags_def)


lemma links_of_emp_1:
  "links_of example_env ''employee'' (Some ''emp_1'') = [(''employee'', ''emp_1'')]"
  "links_of example_env ''project'' (Some ''none'') = []"
  "links_of example_env ''customer'' (Some ''none'') = []"
  by (simp_all add: links_of_def example_env_def ascii_lower_def ascii_lower_char_def
        ascii_strip_def ascii_isspace_def)

text \<open>
  Claim C9, as the code has it. Every call of \<^verbatim>\<open>verify_function\<close> sets the verified
  flag and records a payload of exactly five entries: the outcome, the three link fields
  and the reasoning. The flags \<^verbatim>\<open>made_modifications\<close>, \<^verbatim>\<open>permissions_checked\<close> and
  \<^verbatim>\<open>wiki_checked\<close> are not recorded. The latch and the dispatched requests are left
  alone. The recorded payload is the one the fallback completion reads: with the latch unset
  and an outcome of the enumeration, the completion dispatches the response built from the
  recorded reasoning, outcome and link fields.
\<close>

theorem verify_records_payload:
  "verified (snd (verify_function env a s)) \<and>
   last_verify_payload (snd (verify_function env a s)) =
     [(''outcome'', outcome a), (''employee_links'', employee_links a),
      (''project_links'', project_links a), (''customer_links'', customer_links a),
      (''reasoning'', reasoning a)] \<and>
   response_provided (snd (verify_function env a s)) = response_provided s \<and>
   dispatched (snd (verify_function env a s)) = dispatched s \<and>
   (\<not> response_provided s \<and> outcome a \<in> set outcome_kinds \<longrightarrow>
      dispatched (auto_complete env (snd (verify_function env a s))) =
        dispatched s @
        [ProvideAgentResponse ''/respond''
           (if reasoning a = [] then ''Auto-submitted based on verification step.''
            else reasoning a)
           (outcome a)
           (if outcome a \<in> {''error_internal'', ''denied_security'', ''none_unsupported''}
            then []
            else links_of env ''employee'' (Some (employee_links a)) @
                 links_of env ''project'' (Some (project_links a)) @
                 links_of env ''customer'' (Some (customer_links a)))])"
proof -
  let ?s' = "snd (verify_function env a s)"
  have 1: "verified ?s'" "last_verify_payload ?s' = verify_payload a"
    "response_provided ?s' = response_provided s" "dispatched ?s' = dispatched s"
    by (simp_all add: verify_function_def Let_def)
  have 2: "dispatched (auto_complete env ?s') =
        dispatched s @
        [ProvideAgentResponse ''/respond''
           (if reasoning a = [] then ''Auto-submitted based on verification step.''
            else reasoning a)
           (outcome a)
           (if outcome a \<in> {''error_internal'', ''denied_security'', ''none_unsupported''}
            then []
            else links_of env ''employee'' (Some (employee_links a)) @
                 links_of env ''project'' (Some (project_links a)) @
                 links_of env ''customer'' (Some (customer_links a)))]"
    if "\<not> response_provided s \<and> outcome a \<in> set outcome_kinds"
    using that 1 auto_complete_verified [of ?s' a env] by simp
  from 1 2 show ?thesis by (simp add: verify_payload_def)
qed

theorem verify_records_payload_witness:
  "verified (snd (verify_function example_env verify_emp_1 initial_state)) \<and>
   map fst (last_verify_payload (snd (verify_function example_env verify_emp_1 initial_state))) =
     [''outcome'', ''employee_links'', ''project_links'', ''customer_links'', ''reasoning''] \<and>
   dispatched (auto_complete example_env (snd (verify_function example_env verify_emp_1 initial_state))) =
     [ProvideAgentResponse ''/respond'' ''The lead is emp_1.'' ''ok_answer''
        [(''employee'', ''emp_1'')]]"
proof -
  have 1: "\<not> response_provided initial_state \<and> outcome verify_emp_1 \<in> set outcome_kinds"
    by (simp add: initial_state_def verify_emp_1_def outcome_kinds_def)
  have 3: "dispatched initial_state = []"
    by (simp add: initial_state_def)
  show ?thesis
    using verify_records_payload [of example_env verify_emp_1 initial_state] 1
    by (simp add: verify_emp_1_def links_of_emp_1 3)
qed

theorem verify_payload_counterexample:
  "map_of (last_verify_payload (snd (verify_function example_env verify_not_found initial_state)))
     ''made_modifications'' = None \<and>
   map_of (last_verify_payload (snd (verify_function example_env verify_not_found initial_state)))
     ''permissions_checked'' = None \<and>
   map_of (last_verify_payload (snd (verify_function example_env verify_not_found initial_state)))
     ''wiki_checked'' = None"
  by (simp add: verify_function_def verify_payload_def Let_def)

subsection \<open>Claims about the end of a task\<close>



text \<open>
  Claim C2, as the code has it. If the loop raises \<open>e\<close> and the latch is unset, the
  handler dispatches the generic response with outcome \<^verbatim>\<open>error_internal\<close>, no links and
  a fixed message, whether or not verify was called, and \<^verbatim>\<open>run_agent\<close> raises \<open>e\<close>
  again. The verified outcome and links are not submitted on this path.
\<close>

theorem error_path_sends_error_internal:
  assumes "startup env = None"
      and "\<not> response_provided (exec_events env evs (new_callback tid mdl (reset_flags s)))"
  shows "fst (run_agent env mdl tid evs (Raised e) s) = Some e \<and>
         dispatched (snd (run_agent env mdl tid evs (Raised e) s)) =
           dispatched (exec_events env evs (new_callback tid mdl (reset_flags s))) @
           [ProvideAgentResponse ''/respond'' internal_error_message ''error_internal'' []]"
  using assms
  by (simp add: run_agent_def Let_def log_final_stats_keeps send_error_internal_dispatched)

theorem error_path_sends_error_internal_witness:
  "fst (run_agent example_env ''gpt'' ''task_1'' [Verify verify_emp_1]
          (Raised (OtherException ''Recursion limit reached'')) initial_state) =
     Some (OtherException ''Recursion limit reached'') \<and>
   dispatched (snd (run_agent example_env ''gpt'' ''task_1'' [Verify verify_emp_1]
          (Raised (OtherException ''Recursion limit reached'')) initial_state)) =
     [ProvideAgentResponse ''/respond'' internal_error_message ''error_internal'' []]"
proof -
  let ?s2 = "exec_events example_env [Verify verify_emp_1]
               (new_callback ''task_1'' ''gpt'' (reset_flags initial_state))"
  have 1: "startup example_env = None"
    by (simp add: example_env_def)
  have 2: "\<not> response_provided ?s2"
    by (simp add: verify_function_keeps start_of_loop)
  have 3: "dispatched (snd (verify_function example_env verify_emp_1
             (new_callback ''task_1'' ''gpt'' (reset_flags initial_state)))) = []"
    by (simp add: verify_function_keeps start_of_loop initial_state_def)
  show ?thesis
    using error_path_sends_error_internal [OF 1 2, of "OtherException ''Recursion limit reached''"]
    by (simp add: 3)
qed

theorem error_after_verify_counterexample:
  "dispatched (snd (run_agent example_env ''gpt'' ''task_1'' [Verify verify_not_found]
      (Raised (OtherException ''boom'')) initial_state)) =
     [ProvideAgentResponse ''/respond'' internal_error_message ''error_internal'' []] \<and>
   dispatched (snd (run_agent example_env ''gpt'' ''task_1'' [Verify verify_not_found]
      (Raised (OtherException ''boom'')) initial_state)) \<noteq>
     [ProvideAgentResponse ''/respond'' ''No such project.'' ''ok_not_found'' []]"
  by (simp add: run_agent_def example_env_def initial_state_def reset_flags_def new_callback_def
      verify_function_def Let_def send_error_internal_def Req_ProvideAgentResponse_def
      outcome_kinds_def log_final_stats_def)

text \<open>
  Claim C3, as the code has it. If the loop returns, verify was never called and the latch
  is unset, the fallback completion submits nothing: \<^verbatim>\<open>run_agent\<close> returns without an
  exception, the dispatched requests are those of the loop and the latch is still unset.
\<close>

theorem no_verify_no_submission:
  assumes "startup env = None"
      and "\<forall>a. Verify a \<notin> set evs"
      and "\<not> response_provided (exec_events env evs (new_callback tid mdl (reset_flags s)))"
  shows "fst (run_agent env mdl tid evs Returned s) = None \<and>
         dispatched (snd (run_agent env mdl tid evs Returned s)) =
           dispatched (exec_events env evs (new_callback tid mdl (reset_flags s))) \<and>
         \<not> response_provided (snd (run_agent env mdl tid evs Returned s))"
proof -
  have "\<not> verified (exec_events env evs (new_callback tid mdl (reset_flags s)))"
    using exec_events_keep_payload [OF assms(2)] by (simp add: start_of_loop)
  then show ?thesis
    using assms(1,3)
    by (simp add: run_agent_def Let_def log_final_stats_keeps auto_complete_unverified)
qed

theorem no_verify_no_submission_witness:
  "fst (run_agent example_env ''gpt'' ''task_1'' [ToolCall search_tool search_args]
          Returned initial_state) = None \<and>
   dispatched (snd (run_agent example_env ''gpt'' ''task_1'' [ToolCall search_tool search_args]
          Returned initial_state)) =
     [ApiRequest ''Req_SearchProjects'' [(''query'', VStr ''apollo''), (''page'', VInt 5)]] \<and>
   \<not> response_provided (snd (run_agent example_env ''gpt'' ''task_1''
          [ToolCall search_tool search_args] Returned initial_state))"
proof -
  let ?s2 = "exec_events example_env [ToolCall search_tool search_args]
               (new_callback ''task_1'' ''gpt'' (reset_flags initial_state))"
  have 1: "startup example_env = None"
    by (simp add: example_env_def)
  have 2: "\<forall>a. Verify a \<notin> set [ToolCall search_tool search_args]"
    by simp
  have 3: "\<not> response_provided ?s2 \<and>
           dispatched ?s2 =
             [ApiRequest ''Req_SearchProjects'' [(''query'', VStr ''apollo''), (''page'', VInt 5)]]"
    by (simp add: ERC3Tool_run_def run_try_def dispatch_request_def clamp_page_def
        new_callback_def reset_flags_def example_defs)
  from 3 have 4: "\<not> response_provided ?s2" by simp
  show ?thesis
    using no_verify_no_submission [OF 1 2 4] 3 by simp
qed

theorem no_verify_counterexample:
  "dispatched (snd (run_agent example_env ''gpt'' ''task_1'' [] Returned initial_state)) = [] \<and>
   \<not> response_provided (snd (run_agent example_env ''gpt'' ''task_1'' [] Returned initial_state))"
  by (simp add: run_agent_def example_env_def initial_state_def reset_flags_def new_callback_def
      Let_def auto_complete_def log_final_stats_def)




end
